theory Spec2Isabelle
  imports Complex_Main "HOL-Library.Multiset"
begin

section \<open>FX European barrier option: static replication (ORE)\<close>

text \<open>
  A shallow embedding of \<^verbatim>\<open>FxEuropeanBarrierOption::build\<close> and
  \<^verbatim>\<open>FxEuropeanBarrierOption::fromXML\<close>
  (\<^verbatim>\<open>OREData/ored/portfolio/fxeuropeanbarrieroption.cpp\<close>).

  Conventions of the embedding:
  \<^item> The numbers a trade is given (amounts, level, rebate) are finite values of
    \<^verbatim>\<open>Real\<close>, a C++ double; each is the real number it denotes, so comparisons between
    them are exact. The two zeros of the doubles are one number here.
  \<^item> The division of line 121 is a division of doubles: its result is rounded, and it
    is an infinity or a NaN when the divisor is zero or the quotient overflows. The
    result is a value of the type \<open>Double\<close>, and the division itself is a parameter of
    the model, since nothing in the file says how it rounds. The strike, and what is
    computed from it, can therefore be a value that is not finite.
  \<^item> The subtraction of line 135 is taken without its rounding.
  \<^item> An exception is a value \<open>Inl e\<close> of the result type \<open>error + 'a\<close>;
    \<^verbatim>\<open>QL_REQUIRE\<close> and \<^verbatim>\<open>QL_FAIL\<close> throw a \<^verbatim>\<open>QuantLib::Error\<close> carrying a message.
  \<^item> A \<^verbatim>\<open>boost::shared_ptr\<close> to an instrument is a reference into a store, so that
    two leaves with equal contents remain two leaves.
  \<^item> Member names lose their trailing underscore (\<^verbatim>\<open>option_\<close> is \<open>option\<close>).
  \<^item> Functions and classes the file uses but does not define (the parsers, the engine
    builders, \<^verbatim>\<open>addPremiums\<close>, the XML utilities, the \<^verbatim>\<open>fromXML\<close> of the base class and
    of the members) are parameters of the model.
\<close>

subsection \<open>Errors\<close>

datatype error =
  Error string
    \<comment> \<open>\<^verbatim>\<open>QuantLib::Error\<close> with its message\<close>
| NullPointer
    \<comment> \<open>dereferencing a null \<^verbatim>\<open>shared_ptr\<close> (a failed \<^verbatim>\<open>dynamic_pointer_cast\<close>)\<close>

definition bind :: "error + 'a \<Rightarrow> ('a \<Rightarrow> error + 'b) \<Rightarrow> error + 'b" where
  "bind m f = (case m of Inl e \<Rightarrow> Inl e | Inr x \<Rightarrow> f x)"

definition QL_REQUIRE :: "bool \<Rightarrow> string \<Rightarrow> error + unit" where
  "QL_REQUIRE condition message = (if condition then Inr () else Inl (Error message))"

definition QL_FAIL :: "string \<Rightarrow> error + 'a" where
  "QL_FAIL message = Inl (Error message)"

subsection \<open>QuantLib value types\<close>

type_synonym Date = int
  \<comment> \<open>a \<^verbatim>\<open>QuantLib::Date\<close> is ordered by its serial number\<close>

datatype Currency = Currency string

datatype Option_Type = Put | Call

datatype Barrier_Type = DownIn | UpIn | DownOut | UpOut

datatype Position_Type = Long | Short

text \<open>
  A value of type \<^verbatim>\<open>Real\<close> that is the result of a computation: a finite number, or
  one of the three values that are not.
\<close>

datatype NonFinite = PosInf | NegInf | NaN

datatype Double = Finite real | NonFinite NonFinite

text \<open>
  The comparisons of doubles: an infinity is beyond every finite number, and a comparison
  with a NaN is false.
\<close>

instantiation Double :: ord
begin

definition less_Double :: "Double \<Rightarrow> Double \<Rightarrow> bool" where
  "less_Double x y =
     (case x of
        Finite a \<Rightarrow> (case y of Finite b \<Rightarrow> a < b | NonFinite n \<Rightarrow> n = PosInf)
      | NonFinite m \<Rightarrow> m = NegInf \<and> (case y of Finite b \<Rightarrow> True | NonFinite n \<Rightarrow> n = PosInf))"

definition less_eq_Double :: "Double \<Rightarrow> Double \<Rightarrow> bool" where
  "less_eq_Double x y =
     (case x of
        Finite a \<Rightarrow> (case y of Finite b \<Rightarrow> a \<le> b | NonFinite n \<Rightarrow> n = PosInf)
      | NonFinite m \<Rightarrow>
          (case y of Finite b \<Rightarrow> m = NegInf
           | NonFinite n \<Rightarrow> (m = NegInf \<and> n = NegInf) \<or> (m = NegInf \<and> n = PosInf) \<or>
                            (m = PosInf \<and> n = PosInf)))"

instance ..

end

text \<open>
  The payoffs. The first two constructors are the payoffs with finite numbers. The
  other two are a vanilla payoff whose strike is not finite and a cash-or-nothing payoff
  whose cash is not finite, which \<^verbatim>\<open>build\<close> makes when the strike is not finite.
\<close>

datatype Payoff =
  PlainVanillaPayoff Option_Type real
    \<comment> \<open>type, strike\<close>
| CashOrNothingPayoff Option_Type real real
    \<comment> \<open>type, strike, cash payoff\<close>
| PlainVanillaPayoff_NonFinite Option_Type NonFinite
    \<comment> \<open>type, strike\<close>
| CashOrNothingPayoff_NonFinite Option_Type real NonFinite
    \<comment> \<open>type, strike, cash payoff\<close>

datatype Exercise = EuropeanExercise Date

datatype PricingEngine = PricingEngine nat
  \<comment> \<open>an opaque engine, named by a number\<close>

record VanillaOption =
  payoff :: "Payoff option"
    \<comment> \<open>a \<^verbatim>\<open>shared_ptr\<close>, \<open>None\<close> when null\<close>
  exercise :: Exercise
  engine :: "PricingEngine option"

text \<open>The constructor \<^verbatim>\<open>VanillaOption(payoff, exercise)\<close>: a new instrument has no engine.\<close>

definition make_VanillaOption :: "Payoff option \<Rightarrow> Exercise \<Rightarrow> VanillaOption" where
  "make_VanillaOption p e = \<lparr>payoff = p, exercise = e, engine = None\<rparr>"

text \<open>
  The four instruments that \<^verbatim>\<open>build\<close> allocates, named by the local variables that hold
  them. A reference is the identity of the leaf.
\<close>

datatype LeafRef = digital | vanillaK | vanillaB | rebateInstrument

type_synonym store = "LeafRef \<Rightarrow> VanillaOption"
  \<comment> \<open>the instrument each reference points to\<close>

text \<open>
  \<^verbatim>\<open>CompositeInstrument\<close>: the ordered components, each a reference and a multiplier.
  \<^verbatim>\<open>add(instrument, multiplier = 1.0)\<close> appends.
\<close>

type_synonym CompositeInstrument = "(LeafRef \<times> real) list"

definition add :: "CompositeInstrument \<Rightarrow> LeafRef \<Rightarrow> real \<Rightarrow> CompositeInstrument" where
  "add q instrument multiplier = q @ [(instrument, multiplier)]"

subsection \<open>Trade data\<close>

record PremiumDatum =
  premiumAmount :: real
  premiumCurrency :: string
  premiumPayDate :: string

type_synonym PremiumData = "PremiumDatum list"

record OptionData =
  longShort :: string
  callPut :: string
  style :: string
  exerciseDates :: "string list"
  premiumData :: PremiumData

datatype TradeBarrier = TradeBarrier (val: real)
  \<comment> \<open>\<^verbatim>\<open>barrier_.levels()[0].value()\<close>\<close>

record BarrierData =
  type :: string
  levels :: "TradeBarrier list"
  rebate :: real
  style :: string

datatype TradeAction = TradeAction string

datatype AdditionalInstrument = AdditionalInstrument nat
  \<comment> \<open>an opaque premium instrument made by \<^verbatim>\<open>addPremiums\<close>\<close>

text \<open>
  \<^verbatim>\<open>VanillaInstrument(qlInstrument, mult, additionalInstruments, additionalMultipliers)\<close>.
  The field \<open>leaves\<close> is the part of the store that the references of the composite
  point into.
\<close>

record InstrumentWrapper =
  qlInstrument :: CompositeInstrument
  leaves :: store
  multiplier :: real
  additionalInstruments :: "AdditionalInstrument list"
  additionalMultipliers :: "real list"

datatype Any = AnyString string | AnyReal real

record FxEuropeanBarrierOption =
  tradeActions :: "TradeAction list"
  option :: OptionData
  barrier :: BarrierData
  boughtCurrency :: string
  boughtAmount :: real
  soldCurrency :: string
  soldAmount :: real
  instrument :: "InstrumentWrapper option"
  npvCurrency :: string
  notional :: real
  notionalCurrency :: string
  maturity :: Date
  additionalData :: "string \<rightharpoonup> Any"

subsection \<open>Collaborators\<close>

record FxEuropeanOptionEngineBuilder =
  optionEngine :: "Currency \<Rightarrow> Currency \<Rightarrow> Date \<Rightarrow> error + PricingEngine"
    \<comment> \<open>\<^verbatim>\<open>engine(boughtCcy, soldCcy, expiryDate)\<close>\<close>
  configuration :: string
    \<comment> \<open>\<^verbatim>\<open>configuration(MarketContext::pricing)\<close>\<close>

record FxDigitalOptionEngineBuilder =
  digitalEngine :: "Currency \<Rightarrow> Currency \<Rightarrow> error + PricingEngine"
    \<comment> \<open>\<^verbatim>\<open>engine(boughtCcy, soldCcy)\<close>\<close>

datatype EngineBuilder =
  FxOptionBuilder FxEuropeanOptionEngineBuilder
| FxDigitalOptionBuilder FxDigitalOptionEngineBuilder
| OtherBuilder

record EngineFactory =
  builder :: "string \<Rightarrow> EngineBuilder option"
    \<comment> \<open>\<^verbatim>\<open>engineFactory->builder(name)\<close>, \<open>None\<close> when null\<close>

text \<open>The two \<^verbatim>\<open>dynamic_pointer_cast\<close>s: null when the builder is of another class.\<close>

definition cast_FxEuropeanOptionEngineBuilder ::
  "EngineBuilder \<Rightarrow> FxEuropeanOptionEngineBuilder option" where
  "cast_FxEuropeanOptionEngineBuilder b =
     (case b of FxOptionBuilder x \<Rightarrow> Some x | _ \<Rightarrow> None)"

definition cast_FxDigitalOptionEngineBuilder ::
  "EngineBuilder \<Rightarrow> FxDigitalOptionEngineBuilder option" where
  "cast_FxDigitalOptionEngineBuilder b =
     (case b of FxDigitalOptionBuilder x \<Rightarrow> Some x | _ \<Rightarrow> None)"

definition deref :: "'a option \<Rightarrow> error + 'a" where
  "deref p = (case p of None \<Rightarrow> Inl NullPointer | Some x \<Rightarrow> Inr x)"

text \<open>
  The free functions of \<^verbatim>\<open>ored/utilities/parsers.hpp\<close> and \<^verbatim>\<open>Trade::addPremiums\<close>.
  \<^verbatim>\<open>addPremiums\<close> is called with two empty vectors; the model returns what it appends
  to them, after the date it returns. The last field is the division of two doubles.
\<close>

record Externals =
  parseCurrency :: "string \<Rightarrow> error + Currency"
  parseOptionType :: "string \<Rightarrow> error + Option_Type"
  parseDate :: "string \<Rightarrow> error + Date"
  parseBarrierType :: "string \<Rightarrow> error + Barrier_Type"
  parsePositionType :: "string \<Rightarrow> error + Position_Type"
  addPremiums :: "real \<Rightarrow> PremiumData \<Rightarrow> real \<Rightarrow> Currency \<Rightarrow> EngineFactory \<Rightarrow> string
                   \<Rightarrow> error + (Date \<times> AdditionalInstrument list \<times> real list)"
  divideReal :: "real \<Rightarrow> real \<Rightarrow> Double"

subsection \<open>\<^verbatim>\<open>build\<close>\<close>

text \<open>Lines 42 to 47: only a European option with a single European barrier is supported.\<close>

definition preconditions :: "FxEuropeanBarrierOption \<Rightarrow> error + unit" where
  "preconditions t =
     bind (QL_REQUIRE (OptionData.style (option t) = ''European'')
             (''Option Style unknown: '' @ OptionData.style (option t))) (\<lambda>_.
     bind (QL_REQUIRE (length (exerciseDates (option t)) = 1)
             ''Invalid number of excercise dates'') (\<lambda>_.
     bind (QL_REQUIRE (length (levels (barrier t)) = 1)
             ''Invalid number of barrier levels'') (\<lambda>_.
     bind (QL_REQUIRE (BarrierData.style (barrier t) = [] \<or> BarrierData.style (barrier t) = ''European'')
             ''Only european barrier style suppported'') (\<lambda>_.
     QL_REQUIRE (tradeActions t = [])
       ''TradeActions not supported for FxEuropeanBarrierOption''))))"

text \<open>
  Lines 141 to 148: the payoff of the rebate digital. The pointer stays null when the
  barrier type is none of the four.
\<close>

definition rebatePayoff :: "Barrier_Type \<Rightarrow> real \<Rightarrow> real \<Rightarrow> Payoff option" where
  "rebatePayoff barrierType level rebateAmount =
     (if barrierType = UpIn \<or> barrierType = DownOut
      then Some (CashOrNothingPayoff Put level rebateAmount)
      else if barrierType = UpOut \<or> barrierType = DownIn
      then Some (CashOrNothingPayoff Call level rebateAmount)
      else None)"

text \<open>
  Lines 130 to 149: the three payoffs of the outer option type, and the four new
  instruments on the common exercise.
\<close>

definition payoffVanillaK :: "Option_Type \<Rightarrow> real \<Rightarrow> Payoff" where
  "payoffVanillaK optionType strike = PlainVanillaPayoff optionType strike"

definition payoffVanillaB :: "Option_Type \<Rightarrow> real \<Rightarrow> Payoff" where
  "payoffVanillaB optionType level = PlainVanillaPayoff optionType level"

definition payoffDigital :: "Option_Type \<Rightarrow> real \<Rightarrow> real \<Rightarrow> Payoff" where
  "payoffDigital optionType level strike = CashOrNothingPayoff optionType level \<bar>level - strike\<bar>"

definition instruments ::
  "Option_Type \<Rightarrow> Barrier_Type \<Rightarrow> real \<Rightarrow> real \<Rightarrow> real \<Rightarrow> Exercise \<Rightarrow> store" where
  "instruments optionType barrierType strike level rebateAmount ex r =
     (case r of
        digital \<Rightarrow> make_VanillaOption (Some (payoffDigital optionType level strike)) ex
      | vanillaK \<Rightarrow> make_VanillaOption (Some (payoffVanillaK optionType strike)) ex
      | vanillaB \<Rightarrow> make_VanillaOption (Some (payoffVanillaB optionType level)) ex
      | rebateInstrument \<Rightarrow> make_VanillaOption (rebatePayoff barrierType level rebateAmount) ex)"

text \<open>
  The same lines for a strike that is any double. With a finite strike these are the
  instruments above. With a strike that is not finite, vanillaK has that strike, and the
  cash of the digital is what \<^verbatim>\<open>fabs(level - strike)\<close> is then: a NaN for a NaN, and
  the positive infinity for either infinity.
\<close>

definition fabs_minus_NonFinite :: "NonFinite \<Rightarrow> NonFinite" where
  "fabs_minus_NonFinite n = (case n of NaN \<Rightarrow> NaN | PosInf \<Rightarrow> PosInf | NegInf \<Rightarrow> PosInf)"

definition instruments_Double ::
  "Option_Type \<Rightarrow> Barrier_Type \<Rightarrow> Double \<Rightarrow> real \<Rightarrow> real \<Rightarrow> Exercise \<Rightarrow> store" where
  "instruments_Double optionType barrierType strike level rebateAmount ex =
     (case strike of
        Finite k \<Rightarrow> instruments optionType barrierType k level rebateAmount ex
      | NonFinite n \<Rightarrow> (\<lambda>r. case r of
            digital \<Rightarrow>
              make_VanillaOption
                (Some (CashOrNothingPayoff_NonFinite optionType level (fabs_minus_NonFinite n))) ex
          | vanillaK \<Rightarrow> make_VanillaOption (Some (PlainVanillaPayoff_NonFinite optionType n)) ex
          | vanillaB \<Rightarrow> make_VanillaOption (Some (payoffVanillaB optionType level)) ex
          | rebateInstrument \<Rightarrow>
              make_VanillaOption (rebatePayoff barrierType level rebateAmount) ex))"

text \<open>
  Lines 151 to 165: the two builders are looked up and cast, then each instrument
  receives its engine. \<^verbatim>\<open>setPricingEngine\<close> belongs to QuantLib; \<^verbatim>\<open>build\<close> applies
  it once to each instrument, directly after its construction, and the model records the
  engine in the instrument. What it does to an instrument that already has an engine is
  outside this development.
\<close>

definition setPricingEngine :: "LeafRef \<Rightarrow> PricingEngine \<Rightarrow> store \<Rightarrow> store" where
  "setPricingEngine r e s = s(r := (s r)\<lparr>engine := Some e\<rparr>)"

definition require_builder :: "EngineBuilder option \<Rightarrow> string \<Rightarrow> error + EngineBuilder" where
  "require_builder b message = (case b of None \<Rightarrow> Inl (Error message) | Some x \<Rightarrow> Inr x)"

definition setPricingEngines ::
  "EngineFactory \<Rightarrow> Currency \<Rightarrow> Currency \<Rightarrow> Date \<Rightarrow> store
     \<Rightarrow> error + (FxEuropeanOptionEngineBuilder \<times> store)" where
  "setPricingEngines engineFactory boughtCcy soldCcy expiryDate s =
     bind (require_builder (builder engineFactory ''FxOption'')
             ''No builder found for FxOption'') (\<lambda>b1.
     let fxOptBuilder = cast_FxEuropeanOptionEngineBuilder b1 in
     bind (require_builder (builder engineFactory ''FxDigitalOption'')
             ''No builder found for FxDigitalOption'') (\<lambda>b2.
     let fxDigitalOptBuilder = cast_FxDigitalOptionEngineBuilder b2 in
     bind (deref fxDigitalOptBuilder) (\<lambda>db.
     bind (digitalEngine db boughtCcy soldCcy) (\<lambda>e1.
     bind (deref fxOptBuilder) (\<lambda>ob.
     bind (optionEngine ob boughtCcy soldCcy expiryDate) (\<lambda>e2.
     bind (optionEngine ob boughtCcy soldCcy expiryDate) (\<lambda>e3.
     bind (digitalEngine db boughtCcy soldCcy) (\<lambda>e4.
     Inr (ob, setPricingEngine rebateInstrument e4
               (setPricingEngine vanillaB e3
               (setPricingEngine vanillaK e2
               (setPricingEngine digital e1 s))))))))))))"

text \<open>
  Lines 167 to 207: the composite. The rebate instrument is added first; the rest depends
  on the option type, the barrier type and on whether the level is above the strike.
  The comparison is that of the type of the two numbers: of the reals, or of the doubles
  when the strike is the result of the division.
  The message of \<^verbatim>\<open>QL_FAIL\<close> is given without the streamed barrier type.
  With two option types and four barrier types in the model, the branches for any
  other value are never taken.
\<close>

definition replication ::
  "Option_Type \<Rightarrow> Barrier_Type \<Rightarrow> 'a::ord \<Rightarrow> 'a \<Rightarrow> error + CompositeInstrument" where
  "replication optionType barrierType level strike =
     (let q = add [] rebateInstrument 1 in
      if optionType = Call then
        if barrierType = UpIn \<or> barrierType = DownOut then
          if level > strike
          then Inr (add (add q vanillaB 1) digital 1)
          else Inr (add q vanillaK 1)
        else if barrierType = UpOut \<or> barrierType = DownIn then
          if level > strike
          then Inr (add (add (add q vanillaK 1) vanillaB (- 1)) digital (- 1))
          else Inr q
        else QL_FAIL ''Unknown Barrier Type: ''
      else if optionType = Put then
        if barrierType = UpIn \<or> barrierType = DownOut then
          if level > strike
          then Inr q
          else Inr (add (add (add q vanillaK 1) vanillaB (- 1)) digital (- 1))
        else if barrierType = UpOut \<or> barrierType = DownIn then
          if level > strike
          then Inr (add q vanillaK 1)
          else Inr (add (add q vanillaB 1) digital 1)
        else QL_FAIL ''Unknown Barrier Type: ''
      else Inr q)"

text \<open>
  The whole of \<^verbatim>\<open>build\<close>, statement by statement. Line 40 fetches the market, which
  nothing below uses. The strike is the double that the division of line 121 gives; the
  level, a number of the trade, is compared with it as a double. The members are
  assigned in the last statements only, so a failure leaves the trade as it was: the
  result is the error alone.
\<close>

definition build ::
  "Externals \<Rightarrow> EngineFactory \<Rightarrow> FxEuropeanBarrierOption \<Rightarrow> error + FxEuropeanBarrierOption" where
  "build ext engineFactory t =
     bind (preconditions t) (\<lambda>_.
     bind (parseCurrency ext (boughtCurrency t)) (\<lambda>boughtCcy.
     bind (parseCurrency ext (soldCurrency t)) (\<lambda>soldCcy.
     let level = val (levels (barrier t) ! 0);
         rebate = BarrierData.rebate (barrier t) in
     bind (QL_REQUIRE (rebate \<ge> 0) ''Rebate must be non-negative'') (\<lambda>_.
     let strike = divideReal ext (soldAmount t) (boughtAmount t) in
     bind (parseOptionType ext (callPut (option t))) (\<lambda>type.
     bind (parseDate ext (hd (exerciseDates (option t)))) (\<lambda>expiryDate.
     let exercise = EuropeanExercise expiryDate in
     bind (parseBarrierType ext (BarrierData.type (barrier t))) (\<lambda>barrierType.
     let s0 = instruments_Double type barrierType strike level rebate exercise in
     bind (setPricingEngines engineFactory boughtCcy soldCcy expiryDate s0) (\<lambda>(fxOptBuilder, s).
     bind (replication type barrierType (Finite level) strike) (\<lambda>qlInstrument.
     bind (parsePositionType ext (longShort (option t))) (\<lambda>positionType.
     let bsInd = (if positionType = Long then 1 else - 1);
         mult = boughtAmount t * bsInd in
     bind (addPremiums ext mult (premiumData (option t)) (- bsInd) soldCcy engineFactory
             (configuration fxOptBuilder))
       (\<lambda>(lastPremiumDate, additionalInstruments, additionalMultipliers).
     Inr (t\<lparr>instrument := Some \<lparr>qlInstrument = qlInstrument, leaves = s, multiplier = mult,
                                additionalInstruments = additionalInstruments,
                                additionalMultipliers = additionalMultipliers\<rparr>,
            npvCurrency := soldCurrency t,
            notional := soldAmount t,
            notionalCurrency := soldCurrency t,
            maturity := max lastPremiumDate expiryDate,
            additionalData := (additionalData t)
              (''boughtCurrency'' \<mapsto> AnyString (boughtCurrency t),
               ''boughtAmount'' \<mapsto> AnyReal (boughtAmount t),
               ''soldCurrency'' \<mapsto> AnyString (soldCurrency t),
               ''soldAmount'' \<mapsto> AnyReal (soldAmount t))\<rparr>))))))))))))"

subsection \<open>\<^verbatim>\<open>fromXML\<close>\<close>





subsection \<open>A concrete trade and concrete collaborators\<close>

text \<open>
  The scenario used for the closed instances below: a long call, up-and-out, buying
  1000 EUR for 100000 USD (strike 100), barrier level 120, rebate 5, no premium.
  The collaborators are small stand-ins: parsers that know the words used here, engine
  builders that hand out fixed engines, an \<^verbatim>\<open>addPremiums\<close> that adds nothing and
  returns the null date, and a division that gives the exact quotient (a double for the
  amounts used here) and, for a divisor zero, the infinity of the sign of the dividend or
  a NaN.
\<close>

definition exExternals :: Externals where
  "exExternals = \<lparr>
     parseCurrency = (\<lambda>s. if s = ''EUR'' \<or> s = ''USD'' then Inr (Currency s)
                          else Inl (Error ''Currency not found'')),
     parseOptionType = (\<lambda>s. if s = ''Call'' then Inr Call else if s = ''Put'' then Inr Put
                            else Inl (Error ''Option type not recognized'')),
     parseDate = (\<lambda>s. if s = ''2030-06-28'' then Inr 47662
                      else if s = ''2031-06-30'' then Inr 48029
                      else Inl (Error ''Cannot convert to Date'')),
     parseBarrierType = (\<lambda>s. if s = ''DownAndIn'' then Inr DownIn
                             else if s = ''UpAndIn'' then Inr UpIn
                             else if s = ''DownAndOut'' then Inr DownOut
                             else if s = ''UpAndOut'' then Inr UpOut
                             else Inl (Error ''Barrier type not recognized'')),
     parsePositionType = (\<lambda>s. if s = ''Long'' then Inr Long else if s = ''Short'' then Inr Short
                              else Inl (Error ''Position type not recognized'')),
     addPremiums = (\<lambda>mult premiums sign ccy factory config. Inr (0, [], [])),
     divideReal = (\<lambda>x y. if y = 0
                           then NonFinite (if x = 0 then NaN else if 0 < x then PosInf else NegInf)
                           else Finite (x / y))\<rparr>"

definition exEngineFactory :: EngineFactory where
  "exEngineFactory = \<lparr>
     builder = (\<lambda>name.
       if name = ''FxOption''
       then Some (FxOptionBuilder \<lparr>optionEngine = (\<lambda>c1 c2 d. Inr (PricingEngine 1)),
                                   configuration = ''default''\<rparr>)
       else if name = ''FxDigitalOption''
       then Some (FxDigitalOptionBuilder \<lparr>digitalEngine = (\<lambda>c1 c2. Inr (PricingEngine 2))\<rparr>)
       else None)\<rparr>"

definition exOption :: OptionData where
  "exOption = \<lparr>longShort = ''Long'', callPut = ''Call'', OptionData.style = ''European'',
               exerciseDates = [''2030-06-28''], premiumData = []\<rparr>"

definition exBarrier :: BarrierData where
  "exBarrier = \<lparr>type = ''UpAndOut'', levels = [TradeBarrier 120], rebate = 5, style = []\<rparr>"

definition exTrade :: FxEuropeanBarrierOption where
  "exTrade = \<lparr>tradeActions = [], option = exOption, barrier = exBarrier,
              boughtCurrency = ''EUR'', boughtAmount = 1000,
              soldCurrency = ''USD'', soldAmount = 100000,
              instrument = None, npvCurrency = [], notional = 0, notionalCurrency = [],
              maturity = 0, additionalData = Map.empty\<rparr>"

text \<open>The leaves of the built example trade, with their engines.\<close>

definition exLeaves :: store where
  "exLeaves r =
     (case r of
        digital \<Rightarrow> \<lparr>payoff = Some (CashOrNothingPayoff Call 120 20),
                     exercise = EuropeanExercise 47662, engine = Some (PricingEngine 2)\<rparr>
      | vanillaK \<Rightarrow> \<lparr>payoff = Some (PlainVanillaPayoff Call 100),
                      exercise = EuropeanExercise 47662, engine = Some (PricingEngine 1)\<rparr>
      | vanillaB \<Rightarrow> \<lparr>payoff = Some (PlainVanillaPayoff Call 120),
                      exercise = EuropeanExercise 47662, engine = Some (PricingEngine 1)\<rparr>
      | rebateInstrument \<Rightarrow> \<lparr>payoff = Some (CashOrNothingPayoff Call 120 5),
                              exercise = EuropeanExercise 47662, engine = Some (PricingEngine 2)\<rparr>)"

definition exBuilt :: FxEuropeanBarrierOption where
  "exBuilt = exTrade\<lparr>
     instrument := Some \<lparr>qlInstrument = [(rebateInstrument, 1), (vanillaK, 1), (vanillaB, - 1),
                                          (digital, - 1)],
                         leaves = exLeaves, multiplier = 1000,
                         additionalInstruments = [], additionalMultipliers = []\<rparr>,
     npvCurrency := ''USD'', notional := 100000, notionalCurrency := ''USD'',
     maturity := 47662,
     additionalData := [''boughtCurrency'' \<mapsto> AnyString ''EUR'',
                        ''boughtAmount'' \<mapsto> AnyReal 1000,
                        ''soldCurrency'' \<mapsto> AnyString ''USD'',
                        ''soldAmount'' \<mapsto> AnyReal 100000]\<rparr>"




section \<open>Properties\<close>

subsection \<open>Auxiliary facts\<close>

lemma bind_Inr_iff: "bind m f = Inr y \<longleftrightarrow> (\<exists>x. m = Inr x \<and> f x = Inr y)"
  by (cases m) (simp_all add: bind_def)

lemma bind_Inl: "bind (Inl e) f = Inl e"
  by (simp add: bind_def)

lemma bind_Inr: "bind (Inr x) f = f x"
  by (simp add: bind_def)

lemma QL_REQUIRE_Inr_iff: "QL_REQUIRE c m = Inr u \<longleftrightarrow> c"
  by (simp add: QL_REQUIRE_def)

lemma QL_REQUIRE_True: "c \<Longrightarrow> QL_REQUIRE c m = Inr ()"
  by (simp add: QL_REQUIRE_def)


lemma preconditions_Inr_iff:
  "preconditions t = Inr u \<longleftrightarrow>
     OptionData.style (option t) = ''European'' \<and>
     length (exerciseDates (option t)) = 1 \<and>
     length (levels (barrier t)) = 1 \<and>
     (BarrierData.style (barrier t) = [] \<or> BarrierData.style (barrier t) = ''European'') \<and>
     tradeActions t = []"
  unfolding preconditions_def bind_Inr_iff QL_REQUIRE_Inr_iff by blast

lemma preconditions_Inl:
  assumes "preconditions t = Inl e"
  shows "e = Error (''Option Style unknown: '' @ OptionData.style (option t)) \<or>
         e = Error ''Invalid number of excercise dates'' \<or>
         e = Error ''Invalid number of barrier levels'' \<or>
         e = Error ''Only european barrier style suppported'' \<or>
         e = Error ''TradeActions not supported for FxEuropeanBarrierOption''"
  using assms unfolding preconditions_def bind_def QL_REQUIRE_def
  by (simp split: if_splits)

lemma replication_total: "\<exists>q. replication optionType barrierType level strike = Inr q"
proof (cases optionType)
  case Put
  then show ?thesis by (cases barrierType) (simp_all add: replication_def Let_def)
next
  case Call
  then show ?thesis by (cases barrierType) (simp_all add: replication_def Let_def)
qed

text \<open>Attaching the engines changes the engine of each instrument and nothing else.\<close>

lemma setPricingEngines_Inr:
  assumes "setPricingEngines engineFactory boughtCcy soldCcy expiryDate s0 = Inr (ob, s)"
  shows "payoff (s r) = payoff (s0 r) \<and> exercise (s r) = exercise (s0 r) \<and> engine (s r) \<noteq> None"
proof -
  from assms obtain e1 e2 e3 e4 where
    "s = setPricingEngine rebateInstrument e4 (setPricingEngine vanillaB e3
           (setPricingEngine vanillaK e2 (setPricingEngine digital e1 s0)))"
    unfolding setPricingEngines_def Let_def bind_Inr_iff by auto
  then show ?thesis
    by (cases r) (simp_all add: setPricingEngine_def)
qed

text \<open>
  Whatever the strike, the instruments for vanillaB and for the rebate are those of the
  level and the rebate; and a finite level is above a finite strike as doubles exactly
  when it is as numbers.
\<close>

lemma instruments_Double_rebate:
  "payoff (instruments_Double optionType barrierType strike level rebateAmount ex rebateInstrument) =
     rebatePayoff barrierType level rebateAmount"
  by (cases strike) (simp_all add: instruments_Double_def instruments_def make_VanillaOption_def)

lemma instruments_Double_Finite:
  "instruments_Double optionType barrierType (Finite k) level rebateAmount ex =
     instruments optionType barrierType k level rebateAmount ex"
  by (simp add: instruments_Double_def)

lemma less_Double_Finite: "Finite a < Finite b \<longleftrightarrow> a < b"
  by (simp add: less_Double_def)

lemma replication_Finite:
  "replication optionType barrierType (Finite level) (Finite k) =
     replication optionType barrierType level k"
  by (simp add: replication_def less_Double_Finite Let_def)

text \<open>What a successful \<^verbatim>\<open>build\<close> went through, and what it returns.\<close>

lemma build_Inr:
  assumes "build ext engineFactory t = Inr t'"
  shows "\<exists>boughtCcy soldCcy optionType expiryDate barrierType fxOptBuilder s q positionType
            lastPremiumDate ais ams.
           preconditions t = Inr () \<and>
           parseCurrency ext (boughtCurrency t) = Inr boughtCcy \<and>
           parseCurrency ext (soldCurrency t) = Inr soldCcy \<and>
           0 \<le> BarrierData.rebate (barrier t) \<and>
           parseOptionType ext (callPut (option t)) = Inr optionType \<and>
           parseDate ext (hd (exerciseDates (option t))) = Inr expiryDate \<and>
           parseBarrierType ext (BarrierData.type (barrier t)) = Inr barrierType \<and>
           setPricingEngines engineFactory boughtCcy soldCcy expiryDate
             (instruments_Double optionType barrierType
                (divideReal ext (soldAmount t) (boughtAmount t))
                (val (levels (barrier t) ! 0)) (BarrierData.rebate (barrier t))
                (EuropeanExercise expiryDate)) = Inr (fxOptBuilder, s) \<and>
           replication optionType barrierType (Finite (val (levels (barrier t) ! 0)))
             (divideReal ext (soldAmount t) (boughtAmount t)) = Inr q \<and>
           parsePositionType ext (longShort (option t)) = Inr positionType \<and>
           addPremiums ext (boughtAmount t * (if positionType = Long then 1 else - 1))
             (premiumData (option t)) (- (if positionType = Long then 1 else - 1)) soldCcy
             engineFactory (configuration fxOptBuilder) = Inr (lastPremiumDate, ais, ams) \<and>
           t' = t\<lparr>instrument := Some \<lparr>qlInstrument = q, leaves = s,
                       multiplier = boughtAmount t * (if positionType = Long then 1 else - 1),
                       additionalInstruments = ais, additionalMultipliers = ams\<rparr>,
                  npvCurrency := soldCurrency t,
                  notional := soldAmount t,
                  notionalCurrency := soldCurrency t,
                  maturity := max lastPremiumDate expiryDate,
                  additionalData := (additionalData t)
                    (''boughtCurrency'' \<mapsto> AnyString (boughtCurrency t),
                     ''boughtAmount'' \<mapsto> AnyReal (boughtAmount t),
                     ''soldCurrency'' \<mapsto> AnyString (soldCurrency t),
                     ''soldAmount'' \<mapsto> AnyReal (soldAmount t))\<rparr>"
  using assms
  by (auto simp: build_def Let_def bind_Inr_iff QL_REQUIRE_Inr_iff
        split: prod.splits split del: if_split)

lemma build_preconditions_Inl:
  assumes "preconditions t = Inl e"
  shows "build ext engineFactory t = Inl e"
  using assms by (simp add: build_def bind_Inl)

text \<open>The example trade builds, with the four leaves of the up-and-out call.\<close>

lemma exLeaves_eq:
  "(instruments Call UpOut 100 120 5 (EuropeanExercise 47662))
     (digital := (instruments Call UpOut 100 120 5 (EuropeanExercise 47662) digital)
                   \<lparr>engine := Some (PricingEngine 2)\<rparr>,
      vanillaK := (instruments Call UpOut 100 120 5 (EuropeanExercise 47662) vanillaK)
                    \<lparr>engine := Some (PricingEngine (Suc 0))\<rparr>,
      vanillaB := (instruments Call UpOut 100 120 5 (EuropeanExercise 47662) vanillaB)
                    \<lparr>engine := Some (PricingEngine (Suc 0))\<rparr>,
      rebateInstrument := (instruments Call UpOut 100 120 5 (EuropeanExercise 47662) rebateInstrument)
                            \<lparr>engine := Some (PricingEngine 2)\<rparr>)
   = exLeaves"
  by (rule ext) (simp add: instruments_def exLeaves_def make_VanillaOption_def
      payoffDigital_def payoffVanillaK_def payoffVanillaB_def rebatePayoff_def
      split: LeafRef.splits)

lemmas build_defs = build_def bind_def preconditions_def QL_REQUIRE_def setPricingEngines_def
  require_builder_def cast_FxEuropeanOptionEngineBuilder_def cast_FxDigitalOptionEngineBuilder_def
  deref_def replication_def add_def setPricingEngine_def instruments_Double_def less_Double_def

lemmas ex_defs = exExternals_def exEngineFactory_def exTrade_def exOption_def exBarrier_def

lemma build_example: "build exExternals exEngineFactory exTrade = Inr exBuilt"
  by (simp add: build_defs ex_defs exBuilt_def Let_def exLeaves_eq)

subsection \<open>The replication table\<close>

text \<open>
  C1. For each option type and barrier type, the composite consists of the rebate
  instrument followed by the leaves of the table: a call with an up-in or down-out
  barrier adds vanillaB and the digital (both long) when the level is above the strike
  and vanillaK otherwise; a call with an up-out or down-in barrier adds vanillaK long,
  vanillaB and the digital short when the level is above the strike and nothing
  otherwise; a put with an up-in or down-out barrier adds nothing when the level is
  above the strike and vanillaK long, vanillaB and the digital short otherwise; a put
  with an up-out or down-in barrier adds vanillaK when the level is above the strike
  and vanillaB and the digital (both long) otherwise. This holds for the comparison of
  numbers and for that of doubles alike.
\<close>

theorem replication_table:
  "replication Call UpIn B K =
     Inr (if B > K then [(rebateInstrument, 1), (vanillaB, 1), (digital, 1)]
          else [(rebateInstrument, 1), (vanillaK, 1)]) \<and>
   replication Call DownOut B K =
     Inr (if B > K then [(rebateInstrument, 1), (vanillaB, 1), (digital, 1)]
          else [(rebateInstrument, 1), (vanillaK, 1)]) \<and>
   replication Call UpOut B K =
     Inr (if B > K then [(rebateInstrument, 1), (vanillaK, 1), (vanillaB, - 1), (digital, - 1)]
          else [(rebateInstrument, 1)]) \<and>
   replication Call DownIn B K =
     Inr (if B > K then [(rebateInstrument, 1), (vanillaK, 1), (vanillaB, - 1), (digital, - 1)]
          else [(rebateInstrument, 1)]) \<and>
   replication Put UpIn B K =
     Inr (if B > K then [(rebateInstrument, 1)]
          else [(rebateInstrument, 1), (vanillaK, 1), (vanillaB, - 1), (digital, - 1)]) \<and>
   replication Put DownOut B K =
     Inr (if B > K then [(rebateInstrument, 1)]
          else [(rebateInstrument, 1), (vanillaK, 1), (vanillaB, - 1), (digital, - 1)]) \<and>
   replication Put UpOut B K =
     Inr (if B > K then [(rebateInstrument, 1), (vanillaK, 1)]
          else [(rebateInstrument, 1), (vanillaB, 1), (digital, 1)]) \<and>
   replication Put DownIn B K =
     Inr (if B > K then [(rebateInstrument, 1), (vanillaK, 1)]
          else [(rebateInstrument, 1), (vanillaB, 1), (digital, 1)])"
  by (simp add: replication_def add_def Let_def)

theorem replication_table_witness:
  "replication Call UpOut (120 :: real) 100 =
     Inr [(rebateInstrument, 1), (vanillaK, 1), (vanillaB, - 1), (digital, - 1)] \<and>
   replication Call UpOut (100 :: real) 120 = Inr [(rebateInstrument, 1)] \<and>
   replication Put DownIn (100 :: real) 120 =
     Inr [(rebateInstrument, 1), (vanillaB, 1), (digital, 1)] \<and>
   replication Call UpOut (Finite 120) (NonFinite PosInf) = Inr [(rebateInstrument, 1)]"
  using replication_table [of "120 :: real" 100] replication_table [of "100 :: real" 120]
    replication_table [of "Finite 120" "NonFinite PosInf"]
  by (simp add: less_Double_def)

text \<open>
  C2. The payoff of the rebate instrument is a cash-or-nothing payoff at the level with
  the rebate as cash, a put for an up-in or down-out barrier and a call for an up-out
  or down-in barrier, whatever the option type and the strike; the composite always
  starts with the rebate instrument with multiplier 1, so it is never empty. A trade
  that builds carries this leaf and this first component.
\<close>

theorem rebate_leaf_first:
  "rebatePayoff UpIn B R = Some (CashOrNothingPayoff Put B R) \<and>
   rebatePayoff DownOut B R = Some (CashOrNothingPayoff Put B R) \<and>
   rebatePayoff UpOut B R = Some (CashOrNothingPayoff Call B R) \<and>
   rebatePayoff DownIn B R = Some (CashOrNothingPayoff Call B R) \<and>
   payoff (instruments optionType barrierType K B R ex rebateInstrument) =
     rebatePayoff barrierType B R \<and>
   (\<exists>rest. replication optionType barrierType B K = Inr ((rebateInstrument, 1) # rest)) \<and>
   (build ext engineFactory t = Inr t' \<longrightarrow>
      (\<exists>w barrierType' rest.
         instrument t' = Some w \<and>
         parseBarrierType ext (BarrierData.type (barrier t)) = Inr barrierType' \<and>
         payoff (leaves w rebateInstrument) =
           rebatePayoff barrierType' (val (levels (barrier t) ! 0)) (BarrierData.rebate (barrier t)) \<and>
         qlInstrument w = (rebateInstrument, 1) # rest \<and>
         qlInstrument w \<noteq> []))"
proof -
  have first: "\<exists>rest. replication optionType' barrierType' B' K' = Inr ((rebateInstrument, 1) # rest)"
    for optionType' barrierType' B' K'
    by (cases optionType'; cases barrierType') (simp_all add: replication_def add_def Let_def)
  have built: "\<exists>w barrierType' rest.
         instrument t' = Some w \<and>
         parseBarrierType ext (BarrierData.type (barrier t)) = Inr barrierType' \<and>
         payoff (leaves w rebateInstrument) =
           rebatePayoff barrierType' (val (levels (barrier t) ! 0)) (BarrierData.rebate (barrier t)) \<and>
         qlInstrument w = (rebateInstrument, 1) # rest \<and>
         qlInstrument w \<noteq> []"
    if b: "build ext engineFactory t = Inr t'"
  proof -
    from build_Inr [OF b] obtain boughtCcy soldCcy optionType' expiryDate barrierType'
        fxOptBuilder s q m ais ams where
      bt: "parseBarrierType ext (BarrierData.type (barrier t)) = Inr barrierType'" and
      se: "setPricingEngines engineFactory boughtCcy soldCcy expiryDate
             (instruments_Double optionType' barrierType'
                (divideReal ext (soldAmount t) (boughtAmount t))
                (val (levels (barrier t) ! 0)) (BarrierData.rebate (barrier t))
                (EuropeanExercise expiryDate)) = Inr (fxOptBuilder, s)" and
      q: "replication optionType' barrierType' (Finite (val (levels (barrier t) ! 0)))
             (divideReal ext (soldAmount t) (boughtAmount t)) = Inr q" and
      w: "instrument t' = Some \<lparr>qlInstrument = q, leaves = s, multiplier = m,
             additionalInstruments = ais, additionalMultipliers = ams\<rparr>"
      by auto
    from first q obtain rest where rest: "q = (rebateInstrument, 1) # rest"
      by (metis sum.inject(2))
    have "payoff (s rebateInstrument) =
            rebatePayoff barrierType' (val (levels (barrier t) ! 0)) (BarrierData.rebate (barrier t))"
      using setPricingEngines_Inr [OF se, of rebateInstrument]
      by (simp add: instruments_Double_rebate)
    with bt w rest show ?thesis by simp
  qed
  show ?thesis
    using first built
    by (simp add: rebatePayoff_def instruments_def make_VanillaOption_def)
qed

theorem rebate_leaf_first_witness:
  "build exExternals exEngineFactory exTrade = Inr exBuilt \<and>
   (\<exists>w rest. instrument exBuilt = Some w \<and>
      payoff (leaves w rebateInstrument) = Some (CashOrNothingPayoff Call 120 5) \<and>
      qlInstrument w = (rebateInstrument, 1) # rest)"
  using rebate_leaf_first [of 120 5 Call UpOut 100 "EuropeanExercise 47662"
      exExternals exEngineFactory exTrade exBuilt] build_example
  by (simp add: exBuilt_def exLeaves_def)

text \<open>
  C3. When the level equals the strike the composite is that of the column
  \<open>B \<le> K\<close>, for both option types and all four barrier types. A call with an up-in
  barrier gives the rebate instrument and vanillaK; a put with an up-out barrier gives the
  rebate instrument, vanillaB and the digital, all long; the cash of the digital is 0.
  The leaves are compared by reference, as lists and as multisets.
\<close>

theorem tie_break:
  "replication Call UpIn K K = Inr [(rebateInstrument, 1), (vanillaK, 1)] \<and>
   replication Call DownOut K K = Inr [(rebateInstrument, 1), (vanillaK, 1)] \<and>
   replication Call UpOut K K = Inr [(rebateInstrument, 1)] \<and>
   replication Call DownIn K K = Inr [(rebateInstrument, 1)] \<and>
   replication Put UpIn K K =
     Inr [(rebateInstrument, 1), (vanillaK, 1), (vanillaB, - 1), (digital, - 1)] \<and>
   replication Put DownOut K K =
     Inr [(rebateInstrument, 1), (vanillaK, 1), (vanillaB, - 1), (digital, - 1)] \<and>
   replication Put UpOut K K = Inr [(rebateInstrument, 1), (vanillaB, 1), (digital, 1)] \<and>
   replication Put DownIn K K = Inr [(rebateInstrument, 1), (vanillaB, 1), (digital, 1)] \<and>
   map_sum id mset (replication Call UpIn K K) = Inr {#(rebateInstrument, 1), (vanillaK, 1)#} \<and>
   map_sum id mset (replication Put UpOut K K) =
     Inr {#(rebateInstrument, 1), (vanillaB, 1), (digital, 1)#} \<and>
   payoff (instruments optionType barrierType K K R ex digital) =
     Some (CashOrNothingPayoff optionType K 0)"
  by (simp add: replication_def add_def Let_def instruments_def make_VanillaOption_def payoffDigital_def)

theorem tie_break_witness:
  "replication Call UpIn (100 :: real) 100 = Inr [(rebateInstrument, 1), (vanillaK, 1)] \<and>
   replication Put UpOut (100 :: real) 100 =
     Inr [(rebateInstrument, 1), (vanillaB, 1), (digital, 1)]"
  using tie_break [of 100] by simp



text \<open>
  C9. In every composite the selector produces, vanillaK occurs with multiplier 1
  only; vanillaB occurs exactly when the digital occurs; and when they occur they have
  the same multiplier, which is 1 or -1.
\<close>

theorem composite_invariant:
  assumes "replication optionType barrierType B K = Inr q"
  shows "(\<forall>m. (vanillaK, m) \<in> set q \<longrightarrow> m = 1) \<and>
         ((\<exists>m. (vanillaB, m) \<in> set q) \<longleftrightarrow> (\<exists>m. (digital, m) \<in> set q)) \<and>
         (\<forall>m m'. (vanillaB, m) \<in> set q \<and> (digital, m') \<in> set q \<longrightarrow>
                   m = m' \<and> (m = 1 \<or> m = - 1))"
  using assms
  by (cases optionType; cases barrierType)
     (auto simp: replication_def add_def Let_def split: if_splits)

theorem composite_invariant_witness:
  "replication Call UpOut (120 :: real) 100 =
     Inr [(rebateInstrument, 1), (vanillaK, 1), (vanillaB, - 1), (digital, - 1)] \<and>
   (vanillaK, 1) \<in> set [(rebateInstrument, 1), (vanillaK, 1), (vanillaB, - 1), (digital, - 1 :: real)] \<and>
   (vanillaB, - 1) \<in> set [(rebateInstrument, 1), (vanillaK, 1), (vanillaB, - 1), (digital, - 1 :: real)] \<and>
   (digital, - 1) \<in> set [(rebateInstrument, 1), (vanillaK, 1), (vanillaB, - 1), (digital, - 1 :: real)] \<and>
   ((\<exists>m. (vanillaB, m) \<in> set [(rebateInstrument, 1), (vanillaK, 1), (vanillaB, - 1), (digital, - 1 :: real)]) \<longleftrightarrow>
    (\<exists>m. (digital, m) \<in> set [(rebateInstrument, 1), (vanillaK, 1), (vanillaB, - 1), (digital, - 1 :: real)]))"
proof -
  have r: "replication Call UpOut (120 :: real) 100 =
     Inr [(rebateInstrument, 1), (vanillaK, 1), (vanillaB, - 1), (digital, - 1)]"
    by (simp add: replication_def add_def Let_def)
  show ?thesis
    using r composite_invariant [OF r] by simp
qed

subsection \<open>Preconditions and assembly\<close>

text \<open>
  With the structural conditions met and every later step successful, \<^verbatim>\<open>build\<close>
  returns a trade that has its instrument.
\<close>

lemma build_succeeds:
  assumes pre: "preconditions t = Inr ()"
    and ccy: "parseCurrency ext (boughtCurrency t) = Inr boughtCcy"
      "parseCurrency ext (soldCurrency t) = Inr soldCcy"
    and reb: "0 \<le> BarrierData.rebate (barrier t)"
    and terms: "parseOptionType ext (callPut (option t)) = Inr optionType"
      "parseDate ext (hd (exerciseDates (option t))) = Inr expiryDate"
      "parseBarrierType ext (BarrierData.type (barrier t)) = Inr barrierType"
    and builders: "builder engineFactory ''FxOption'' = Some (FxOptionBuilder ob)"
      "builder engineFactory ''FxDigitalOption'' = Some (FxDigitalOptionBuilder db)"
    and engines: "digitalEngine db boughtCcy soldCcy = Inr e1"
      "optionEngine ob boughtCcy soldCcy expiryDate = Inr e2"
    and pos: "parsePositionType ext (longShort (option t)) = Inr positionType"
    and prem: "addPremiums ext (boughtAmount t * (if positionType = Long then 1 else - 1))
        (premiumData (option t)) (- (if positionType = Long then 1 else - 1)) soldCcy
        engineFactory (configuration ob) = Inr (lastPremiumDate, ais, ams)"
  shows "\<exists>t' w. build ext engineFactory t = Inr t' \<and> instrument t' = Some w \<and>
           replication optionType barrierType (Finite (val (levels (barrier t) ! 0)))
             (divideReal ext (soldAmount t) (boughtAmount t)) = Inr (qlInstrument w)"
proof -
  obtain q where q: "replication optionType barrierType (Finite (val (levels (barrier t) ! 0)))
      (divideReal ext (soldAmount t) (boughtAmount t)) = Inr q"
    using replication_total by blast
  have se: "setPricingEngines engineFactory boughtCcy soldCcy expiryDate s0 =
      Inr (ob, setPricingEngine rebateInstrument e1 (setPricingEngine vanillaB e2
             (setPricingEngine vanillaK e2 (setPricingEngine digital e1 s0))))" for s0
    using builders engines
    by (simp add: setPricingEngines_def require_builder_def bind_def deref_def
        cast_FxEuropeanOptionEngineBuilder_def cast_FxDigitalOptionEngineBuilder_def)
  show ?thesis
    using pre ccy reb terms pos prem q
    by (simp add: build_def bind_Inr se QL_REQUIRE_True Let_def)
qed

lemma build_fails_unsupported:
  assumes "\<not> (OptionData.style (option t) = ''European'' \<and>
        length (exerciseDates (option t)) = 1 \<and>
        length (levels (barrier t)) = 1 \<and>
        (BarrierData.style (barrier t) = [] \<or> BarrierData.style (barrier t) = ''European'') \<and>
        tradeActions t = [])"
  shows "\<exists>e. build ext engineFactory t = Inl e \<and>
           (e = Error (''Option Style unknown: '' @ OptionData.style (option t)) \<or>
            e = Error ''Invalid number of excercise dates'' \<or>
            e = Error ''Invalid number of barrier levels'' \<or>
            e = Error ''Only european barrier style suppported'' \<or>
            e = Error ''TradeActions not supported for FxEuropeanBarrierOption'')"
proof -
  have "preconditions t \<noteq> Inr ()"
    using assms iffD1 [OF preconditions_Inr_iff] by fast
  then obtain e where e: "preconditions t = Inl e"
    by (cases "preconditions t") auto
  from build_preconditions_Inl [OF e] preconditions_Inl [OF e]
  show ?thesis
    by (intro exI [of _ e] conjI)
qed

text \<open>
  C5. \<^verbatim>\<open>build\<close> fails, with the message of the first failed check and without a
  result, whenever the option style is not European, or there is not exactly one
  exercise date, or not exactly one barrier level, or the barrier style is neither empty
  nor European, or the trade has trade actions. When all five conditions hold the checks
  pass, and \<^verbatim>\<open>build\<close> goes on: if the steps that follow succeed (the parsers, the
  check of the rebate, the builders and their engines, the premiums) it returns the
  trade with its instrument, whose composite is the one selected for the level and the
  strike that the division of the amounts gave.
\<close>

theorem build_preconditions:
  "(\<not> (OptionData.style (option t) = ''European'' \<and>
        length (exerciseDates (option t)) = 1 \<and>
        length (levels (barrier t)) = 1 \<and>
        (BarrierData.style (barrier t) = [] \<or> BarrierData.style (barrier t) = ''European'') \<and>
        tradeActions t = []) \<longrightarrow>
      (\<exists>e. build ext engineFactory t = Inl e \<and>
           (e = Error (''Option Style unknown: '' @ OptionData.style (option t)) \<or>
            e = Error ''Invalid number of excercise dates'' \<or>
            e = Error ''Invalid number of barrier levels'' \<or>
            e = Error ''Only european barrier style suppported'' \<or>
            e = Error ''TradeActions not supported for FxEuropeanBarrierOption''))) \<and>
   (OptionData.style (option t) = ''European'' \<and>
    length (exerciseDates (option t)) = 1 \<and>
    length (levels (barrier t)) = 1 \<and>
    (BarrierData.style (barrier t) = [] \<or> BarrierData.style (barrier t) = ''European'') \<and>
    tradeActions t = [] \<longrightarrow>
      preconditions t = Inr () \<and>
      (parseCurrency ext (boughtCurrency t) = Inr boughtCcy \<and>
       parseCurrency ext (soldCurrency t) = Inr soldCcy \<and>
       0 \<le> BarrierData.rebate (barrier t) \<and>
       parseOptionType ext (callPut (option t)) = Inr optionType \<and>
       parseDate ext (hd (exerciseDates (option t))) = Inr expiryDate \<and>
       parseBarrierType ext (BarrierData.type (barrier t)) = Inr barrierType \<and>
       builder engineFactory ''FxOption'' = Some (FxOptionBuilder ob) \<and>
       builder engineFactory ''FxDigitalOption'' = Some (FxDigitalOptionBuilder db) \<and>
       digitalEngine db boughtCcy soldCcy = Inr e1 \<and>
       optionEngine ob boughtCcy soldCcy expiryDate = Inr e2 \<and>
       parsePositionType ext (longShort (option t)) = Inr positionType \<and>
       addPremiums ext (boughtAmount t * (if positionType = Long then 1 else - 1))
         (premiumData (option t)) (- (if positionType = Long then 1 else - 1)) soldCcy
         engineFactory (configuration ob) = Inr (lastPremiumDate, ais, ams) \<longrightarrow>
       (\<exists>t' w. build ext engineFactory t = Inr t' \<and> instrument t' = Some w \<and>
          replication optionType barrierType (Finite (val (levels (barrier t) ! 0)))
            (divideReal ext (soldAmount t) (boughtAmount t)) = Inr (qlInstrument w))))"
proof (intro conjI impI)
  assume "\<not> (OptionData.style (option t) = ''European'' \<and>
        length (exerciseDates (option t)) = 1 \<and>
        length (levels (barrier t)) = 1 \<and>
        (BarrierData.style (barrier t) = [] \<or> BarrierData.style (barrier t) = ''European'') \<and>
        tradeActions t = [])"
  then show "\<exists>e. build ext engineFactory t = Inl e \<and>
           (e = Error (''Option Style unknown: '' @ OptionData.style (option t)) \<or>
            e = Error ''Invalid number of excercise dates'' \<or>
            e = Error ''Invalid number of barrier levels'' \<or>
            e = Error ''Only european barrier style suppported'' \<or>
            e = Error ''TradeActions not supported for FxEuropeanBarrierOption'')"
    by (rule build_fails_unsupported)
next
  assume "OptionData.style (option t) = ''European'' \<and>
    length (exerciseDates (option t)) = 1 \<and>
    length (levels (barrier t)) = 1 \<and>
    (BarrierData.style (barrier t) = [] \<or> BarrierData.style (barrier t) = ''European'') \<and>
    tradeActions t = []"
  then show pre: "preconditions t = Inr ()"
    by (rule iffD2 [OF preconditions_Inr_iff])
  assume "parseCurrency ext (boughtCurrency t) = Inr boughtCcy \<and>
       parseCurrency ext (soldCurrency t) = Inr soldCcy \<and>
       0 \<le> BarrierData.rebate (barrier t) \<and>
       parseOptionType ext (callPut (option t)) = Inr optionType \<and>
       parseDate ext (hd (exerciseDates (option t))) = Inr expiryDate \<and>
       parseBarrierType ext (BarrierData.type (barrier t)) = Inr barrierType \<and>
       builder engineFactory ''FxOption'' = Some (FxOptionBuilder ob) \<and>
       builder engineFactory ''FxDigitalOption'' = Some (FxDigitalOptionBuilder db) \<and>
       digitalEngine db boughtCcy soldCcy = Inr e1 \<and>
       optionEngine ob boughtCcy soldCcy expiryDate = Inr e2 \<and>
       parsePositionType ext (longShort (option t)) = Inr positionType \<and>
       addPremiums ext (boughtAmount t * (if positionType = Long then 1 else - 1))
         (premiumData (option t)) (- (if positionType = Long then 1 else - 1)) soldCcy
         engineFactory (configuration ob) = Inr (lastPremiumDate, ais, ams)"
  then show "\<exists>t' w. build ext engineFactory t = Inr t' \<and> instrument t' = Some w \<and>
          replication optionType barrierType (Finite (val (levels (barrier t) ! 0)))
            (divideReal ext (soldAmount t) (boughtAmount t)) = Inr (qlInstrument w)"
    by (elim conjE) (rule build_succeeds [OF pre])
qed

theorem build_preconditions_witness:
  "(\<exists>e. build exExternals exEngineFactory
          (exTrade\<lparr>option := exOption\<lparr>exerciseDates := [''2030-06-28'', ''2031-06-30'']\<rparr>\<rparr>) = Inl e) \<and>
   (\<exists>e. build exExternals exEngineFactory
          (exTrade\<lparr>barrier := exBarrier\<lparr>style := ''American''\<rparr>\<rparr>) = Inl e) \<and>
   preconditions exTrade = Inr () \<and>
   (\<exists>t' w. build exExternals exEngineFactory exTrade = Inr t' \<and> instrument t' = Some w \<and>
      replication Call UpOut (Finite (val (levels (barrier exTrade) ! 0)))
        (divideReal exExternals (soldAmount exTrade) (boughtAmount exTrade)) = Inr (qlInstrument w))"
proof -
  let ?twoDates = "exTrade\<lparr>option := exOption\<lparr>exerciseDates := [''2030-06-28'', ''2031-06-30'']\<rparr>\<rparr>"
  let ?american = "exTrade\<lparr>barrier := exBarrier\<lparr>style := ''American''\<rparr>\<rparr>"
  have "\<not> (OptionData.style (option ?twoDates) = ''European'' \<and>
        length (exerciseDates (option ?twoDates)) = 1 \<and>
        length (levels (barrier ?twoDates)) = 1 \<and>
        (BarrierData.style (barrier ?twoDates) = [] \<or>
         BarrierData.style (barrier ?twoDates) = ''European'') \<and>
        tradeActions ?twoDates = [])"
    by (simp add: exTrade_def)
  from build_preconditions [of "?twoDates" exExternals exEngineFactory, THEN conjunct1, rule_format, OF this]
  have a: "\<exists>e. build exExternals exEngineFactory ?twoDates = Inl e"
    by (elim exE conjE) (rule exI)
  have "\<not> (OptionData.style (option ?american) = ''European'' \<and>
        length (exerciseDates (option ?american)) = 1 \<and>
        length (levels (barrier ?american)) = 1 \<and>
        (BarrierData.style (barrier ?american) = [] \<or>
         BarrierData.style (barrier ?american) = ''European'') \<and>
        tradeActions ?american = [])"
    by (simp add: exTrade_def)
  from build_preconditions [of "?american" exExternals exEngineFactory, THEN conjunct1, rule_format, OF this]
  have b: "\<exists>e. build exExternals exEngineFactory ?american = Inl e"
    by (elim exE conjE) (rule exI)
  have good: "OptionData.style (option exTrade) = ''European'' \<and>
        length (exerciseDates (option exTrade)) = 1 \<and>
        length (levels (barrier exTrade)) = 1 \<and>
        (BarrierData.style (barrier exTrade) = [] \<or>
         BarrierData.style (barrier exTrade) = ''European'') \<and>
        tradeActions exTrade = []"
    by (simp add: exTrade_def exOption_def exBarrier_def)
  note c = build_preconditions [THEN conjunct2, rule_format, OF good, THEN conjunct1]
  have rest: "parseCurrency exExternals (boughtCurrency exTrade) = Inr (Currency ''EUR'') \<and>
       parseCurrency exExternals (soldCurrency exTrade) = Inr (Currency ''USD'') \<and>
       0 \<le> BarrierData.rebate (barrier exTrade) \<and>
       parseOptionType exExternals (callPut (option exTrade)) = Inr Call \<and>
       parseDate exExternals (hd (exerciseDates (option exTrade))) = Inr 47662 \<and>
       parseBarrierType exExternals (BarrierData.type (barrier exTrade)) = Inr UpOut \<and>
       builder exEngineFactory ''FxOption'' =
         Some (FxOptionBuilder \<lparr>optionEngine = (\<lambda>c1 c2 d. Inr (PricingEngine 1)),
                                 configuration = ''default''\<rparr>) \<and>
       builder exEngineFactory ''FxDigitalOption'' =
         Some (FxDigitalOptionBuilder \<lparr>digitalEngine = (\<lambda>c1 c2. Inr (PricingEngine 2))\<rparr>) \<and>
       digitalEngine \<lparr>digitalEngine = (\<lambda>c1 c2. Inr (PricingEngine 2))\<rparr>
         (Currency ''EUR'') (Currency ''USD'') = Inr (PricingEngine 2) \<and>
       optionEngine \<lparr>optionEngine = (\<lambda>c1 c2 d. Inr (PricingEngine 1)), configuration = ''default''\<rparr>
         (Currency ''EUR'') (Currency ''USD'') 47662 = Inr (PricingEngine 1) \<and>
       parsePositionType exExternals (longShort (option exTrade)) = Inr Long \<and>
       addPremiums exExternals (boughtAmount exTrade * (if Long = Long then 1 else - 1))
         (premiumData (option exTrade)) (- (if Long = Long then 1 else - 1)) (Currency ''USD'')
         exEngineFactory
         (configuration \<lparr>optionEngine = (\<lambda>c1 c2 d. Inr (PricingEngine 1)),
                          configuration = ''default''\<rparr>) = Inr (0, [], [])"
    by (simp add: ex_defs)
  from build_preconditions [THEN conjunct2, rule_format, OF good, THEN conjunct2, rule_format, OF rest]
  have d: "\<exists>t' w. build exExternals exEngineFactory exTrade = Inr t' \<and> instrument t' = Some w \<and>
      replication Call UpOut (Finite (val (levels (barrier exTrade) ! 0)))
        (divideReal exExternals (soldAmount exTrade) (boughtAmount exTrade)) = Inr (qlInstrument w)" .
  from a b c d show ?thesis by (intro conjI)
qed

subsection \<open>Assembly of the trade\<close>

lemma build_InrE:
  assumes "build ext engineFactory t = Inr t'"
  obtains boughtCcy soldCcy optionType expiryDate barrierType fxOptBuilder s q positionType
      lastPremiumDate ais ams
  where "preconditions t = Inr ()"
    and "parseCurrency ext (boughtCurrency t) = Inr boughtCcy"
    and "parseCurrency ext (soldCurrency t) = Inr soldCcy"
    and "0 \<le> BarrierData.rebate (barrier t)"
    and "parseOptionType ext (callPut (option t)) = Inr optionType"
    and "parseDate ext (hd (exerciseDates (option t))) = Inr expiryDate"
    and "parseBarrierType ext (BarrierData.type (barrier t)) = Inr barrierType"
    and "setPricingEngines engineFactory boughtCcy soldCcy expiryDate
             (instruments_Double optionType barrierType
                (divideReal ext (soldAmount t) (boughtAmount t))
                (val (levels (barrier t) ! 0)) (BarrierData.rebate (barrier t))
                (EuropeanExercise expiryDate)) = Inr (fxOptBuilder, s)"
    and "replication optionType barrierType (Finite (val (levels (barrier t) ! 0)))
             (divideReal ext (soldAmount t) (boughtAmount t)) = Inr q"
    and "parsePositionType ext (longShort (option t)) = Inr positionType"
    and "addPremiums ext (boughtAmount t * (if positionType = Long then 1 else - 1))
             (premiumData (option t)) (- (if positionType = Long then 1 else - 1)) soldCcy
             engineFactory (configuration fxOptBuilder) = Inr (lastPremiumDate, ais, ams)"
    and "t' = t\<lparr>instrument := Some \<lparr>qlInstrument = q, leaves = s,
                       multiplier = boughtAmount t * (if positionType = Long then 1 else - 1),
                       additionalInstruments = ais, additionalMultipliers = ams\<rparr>,
                  npvCurrency := soldCurrency t,
                  notional := soldAmount t,
                  notionalCurrency := soldCurrency t,
                  maturity := max lastPremiumDate expiryDate,
                  additionalData := (additionalData t)
                    (''boughtCurrency'' \<mapsto> AnyString (boughtCurrency t),
                     ''boughtAmount'' \<mapsto> AnyReal (boughtAmount t),
                     ''soldCurrency'' \<mapsto> AnyString (soldCurrency t),
                     ''soldAmount'' \<mapsto> AnyReal (soldAmount t))\<rparr>"
  using build_Inr [OF assms] by (elim exE conjE) (rule that)

lemma bsInd_cases:
  "(if positionType = Long then 1 else - 1) = ((case positionType of Long \<Rightarrow> 1 | Short \<Rightarrow> - 1) :: real)"
  "- ((case positionType of Long \<Rightarrow> 1 | Short \<Rightarrow> - 1) :: real) = (case positionType of Long \<Rightarrow> - 1 | Short \<Rightarrow> 1)"
  by (cases positionType; simp)+

text \<open>
  C8. After a successful \<^verbatim>\<open>build\<close> the multiplier of the instrument is the bought
  amount times 1 for a long and -1 for a short position; the NPV currency and the
  notional currency are the sold currency; the notional is the sold amount; and the
  maturity is the later of the last premium date, as returned by \<^verbatim>\<open>addPremiums\<close>, and
  the expiry date.
\<close>

theorem trade_assembly:
  assumes "build ext engineFactory t = Inr t'"
  shows "\<exists>w positionType soldCcy (fxOptBuilder :: FxEuropeanOptionEngineBuilder) expiryDate
            lastPremiumDate ais ams.
           instrument t' = Some w \<and>
           parsePositionType ext (longShort (option t)) = Inr positionType \<and>
           multiplier w = boughtAmount t * (case positionType of Long \<Rightarrow> 1 | Short \<Rightarrow> - 1) \<and>
           npvCurrency t' = soldCurrency t \<and>
           notionalCurrency t' = soldCurrency t \<and>
           notional t' = soldAmount t \<and>
           parseDate ext (hd (exerciseDates (option t))) = Inr expiryDate \<and>
           addPremiums ext (multiplier w) (premiumData (option t))
             (case positionType of Long \<Rightarrow> - 1 | Short \<Rightarrow> 1) soldCcy engineFactory
             (configuration fxOptBuilder) = Inr (lastPremiumDate, ais, ams) \<and>
           maturity t' = max lastPremiumDate expiryDate"
proof (rule build_InrE [OF assms])
  fix soldCcy expiryDate and fxOptBuilder :: FxEuropeanOptionEngineBuilder
    and s q positionType lastPremiumDate ais ams
  assume d: "parseDate ext (hd (exerciseDates (option t))) = Inr expiryDate"
    and p: "parsePositionType ext (longShort (option t)) = Inr positionType"
    and a: "addPremiums ext (boughtAmount t * (if positionType = Long then 1 else - 1))
          (premiumData (option t)) (- (if positionType = Long then 1 else - 1)) soldCcy
          engineFactory (configuration fxOptBuilder) = Inr (lastPremiumDate, ais, ams)"
    and t': "t' = t\<lparr>instrument := Some \<lparr>qlInstrument = q, leaves = s,
                       multiplier = boughtAmount t * (if positionType = Long then 1 else - 1),
                       additionalInstruments = ais, additionalMultipliers = ams\<rparr>,
                  npvCurrency := soldCurrency t,
                  notional := soldAmount t,
                  notionalCurrency := soldCurrency t,
                  maturity := max lastPremiumDate expiryDate,
                  additionalData := (additionalData t)
                    (''boughtCurrency'' \<mapsto> AnyString (boughtCurrency t),
                     ''boughtAmount'' \<mapsto> AnyReal (boughtAmount t),
                     ''soldCurrency'' \<mapsto> AnyString (soldCurrency t),
                     ''soldAmount'' \<mapsto> AnyReal (soldAmount t))\<rparr>"
  let ?w = "\<lparr>qlInstrument = q, leaves = s,
             multiplier = boughtAmount t * (if positionType = Long then 1 else - 1),
             additionalInstruments = ais, additionalMultipliers = ams\<rparr>"
  have "instrument t' = Some ?w \<and>
        parsePositionType ext (longShort (option t)) = Inr positionType \<and>
        multiplier ?w = boughtAmount t * (case positionType of Long \<Rightarrow> 1 | Short \<Rightarrow> - 1) \<and>
        npvCurrency t' = soldCurrency t \<and>
        notionalCurrency t' = soldCurrency t \<and>
        notional t' = soldAmount t \<and>
        parseDate ext (hd (exerciseDates (option t))) = Inr expiryDate \<and>
        addPremiums ext (multiplier ?w) (premiumData (option t))
          (case positionType of Long \<Rightarrow> - 1 | Short \<Rightarrow> 1) soldCcy engineFactory
          (configuration fxOptBuilder) = Inr (lastPremiumDate, ais, ams) \<and>
        maturity t' = max lastPremiumDate expiryDate"
    using d p a by (simp add: t' bsInd_cases)
  then show ?thesis
    by (intro exI)
qed

theorem trade_assembly_witness:
  "build exExternals exEngineFactory exTrade = Inr exBuilt \<and>
   (\<exists>w. instrument exBuilt = Some w \<and> multiplier w = 1000) \<and>
   npvCurrency exBuilt = ''USD'' \<and> notionalCurrency exBuilt = ''USD'' \<and>
   notional exBuilt = 100000 \<and> maturity exBuilt = 47662"
  using trade_assembly [OF build_example] build_example
  by (simp add: exBuilt_def exTrade_def)

subsection \<open>The strike\<close>







text \<open>The example trade with a bought amount of zero: the rebate instrument alone.\<close>

lemma build_example_zero:
  "\<exists>t' w. build exExternals exEngineFactory (exTrade\<lparr>boughtAmount := 0\<rparr>) = Inr t' \<and>
          instrument t' = Some w \<and>
          qlInstrument w = [(rebateInstrument, 1)] \<and>
          payoff (leaves w vanillaK) = Some (PlainVanillaPayoff_NonFinite Call PosInf) \<and>
          payoff (leaves w digital) = Some (CashOrNothingPayoff_NonFinite Call 120 PosInf)"
  by (simp add: build_defs ex_defs Let_def fabs_minus_NonFinite_def make_VanillaOption_def)

text \<open>
  A tie after rounding: when the division gives the level itself, whatever the exact
  quotient of the amounts, the composite is that of a level equal to the strike.
\<close>

lemma build_rounding_tie:
  assumes b: "build ext engineFactory t = Inr t'"
    and tie: "divideReal ext (soldAmount t) (boughtAmount t) = Finite (val (levels (barrier t) ! 0))"
  shows "\<exists>w optionType barrierType.
           instrument t' = Some w \<and>
           parseOptionType ext (callPut (option t)) = Inr optionType \<and>
           parseBarrierType ext (BarrierData.type (barrier t)) = Inr barrierType \<and>
           replication optionType barrierType (val (levels (barrier t) ! 0))
             (val (levels (barrier t) ! 0)) = Inr (qlInstrument w)"
proof (rule build_InrE [OF b])
  fix optionType expiryDate barrierType s q positionType lastPremiumDate ais ams
  assume ot: "parseOptionType ext (callPut (option t)) = Inr optionType"
    and bt: "parseBarrierType ext (BarrierData.type (barrier t)) = Inr barrierType"
    and q: "replication optionType barrierType (Finite (val (levels (barrier t) ! 0)))
             (divideReal ext (soldAmount t) (boughtAmount t)) = Inr q"
    and t': "t' = t\<lparr>instrument := Some \<lparr>qlInstrument = q, leaves = s,
                       multiplier = boughtAmount t * (if positionType = Long then 1 else - 1),
                       additionalInstruments = ais, additionalMultipliers = ams\<rparr>,
                  npvCurrency := soldCurrency t,
                  notional := soldAmount t,
                  notionalCurrency := soldCurrency t,
                  maturity := max lastPremiumDate expiryDate,
                  additionalData := (additionalData t)
                    (''boughtCurrency'' \<mapsto> AnyString (boughtCurrency t),
                     ''boughtAmount'' \<mapsto> AnyReal (boughtAmount t),
                     ''soldCurrency'' \<mapsto> AnyString (soldCurrency t),
                     ''soldAmount'' \<mapsto> AnyReal (soldAmount t))\<rparr>"
  let ?w = "\<lparr>qlInstrument = q, leaves = s,
               multiplier = boughtAmount t * (if positionType = Long then 1 else - 1),
               additionalInstruments = ais, additionalMultipliers = ams\<rparr>"
  have "instrument t' = Some ?w \<and>
           parseOptionType ext (callPut (option t)) = Inr optionType \<and>
           parseBarrierType ext (BarrierData.type (barrier t)) = Inr barrierType \<and>
           replication optionType barrierType (val (levels (barrier t) ! 0))
             (val (levels (barrier t) ! 0)) = Inr (qlInstrument ?w)"
    using ot bt q by (simp add: t' tie replication_Finite)
  then show ?thesis
    by (intro exI)
qed



subsection \<open>Where a negative rebate is rejected\<close>









end
